theory Spec2Isabelle
  imports Complex_Main "HOL-Library.Word"
begin

unbundle bit_operations_syntax

section \<open>Data model\<close>

text \<open>
  An OpenCV colour image is a list of rows of three-byte pixels; a cv2 image read by
  \<^verbatim>\<open>imread\<close>/\<^verbatim>\<open>imdecode\<close> stores the channels in B, G, R order. A single-channel image
  (grey levels, an edge map, a \<^verbatim>\<open>uint8\<close> mask) is a list of rows of bytes. A
  segmentation mask as YOLO returns it is a matrix of floats. A float is kept as the
  real number it stands for; where the code subtracts or multiplies floats the rounding
  of the result is a parameter, and where it compares a \<^verbatim>\<open>float32\<close> with a literal
  the literal is rounded as the installed NumPy rounds it. The elements of an embedding
  are 32-bit floats that the code never computes with: they are kept as their 32-bit
  patterns, so that equality of two vectors is equality of their bytes.
\<close>

type_synonym pixel = "8 word \<times> 8 word \<times> 8 word"
type_synonym image = "pixel list list"
type_synonym gray_image = "8 word list list"
type_synonym float_mask = "real list list"
type_synonym float32 = "32 word"
type_synonym tensor = "float32 list list"
type_synonym vector = "float32 list"

datatype error =
  IndexError | TypeError | AttributeError | RuntimeError | CvError | FileNotFoundError

text \<open>
  What a Python expression that is expected to be a tensor evaluated to: a 2-D
  \<^verbatim>\<open>torch.Tensor\<close> (batch rows of features), or some object that is not a tensor.
\<close>

datatype pyval = Tensor tensor | NotTensor

text \<open>
  The value of \<^verbatim>\<open>clip_model.get_image_features(**inputs)\<close>, by the cases the two
  sources test for, in the order they test them: an object with an attribute
  \<^verbatim>\<open>pooler_output\<close>; otherwise a \<^verbatim>\<open>torch.Tensor\<close>; otherwise a tuple; otherwise any
  other object, given by what \<^verbatim>\<open>outputs.last_hidden_state[:, 0]\<close> and \<^verbatim>\<open>outputs[0]\<close>
  evaluate to (an error when the expression raises).
\<close>

datatype clip_output =
    PoolerOut pyval
  | PlainTensor tensor
  | TupleOut "pyval list"
  | OtherOut "error + pyval" "error + pyval"

text \<open>
  \<^verbatim>\<open>results[0]\<close> of a YOLO call: \<^verbatim>\<open>masks\<close> is \<^verbatim>\<open>None\<close> or holds the mask stack
  \<^verbatim>\<open>masks.data\<close>; \<^verbatim>\<open>boxes.cls\<close> and \<^verbatim>\<open>boxes.conf\<close> are two columns of one box table,
  kept as a list of (class, confidence) pairs.
\<close>

record yolo_result =
  masks :: "float_mask list option"
  boxes :: "(real \<times> real) list"

text \<open>A catalog record \<^verbatim>\<open>{"name": ..., "vector": ...}\<close> and a search result.\<close>

record named =
  name :: string

record catalog_item = named +
  vector :: vector

record search_hit = named +
  similarity :: real
  image_url :: string

datatype inpaint_flag = INPAINT_NS | INPAINT_TELEA

text \<open>
  How the installed NumPy compares or combines a \<^verbatim>\<open>float32\<close> scalar with a Python
  float: version 1 converts both to \<^verbatim>\<open>float64\<close>, version 2 converts the Python float
  to \<^verbatim>\<open>float32\<close>.
\<close>

datatype numpy_version = NumPy1 | NumPy2

text \<open>What an endpoint returns: an error dictionary, the result list, or a PNG stream.\<close>

datatype response =
    ErrorJson string
  | ResultsJson "search_hit list"
  | PngStream "8 word list"

text \<open>
  The calls a \<^verbatim>\<open>/search\<close> request makes, in the order it makes them: reading the
  upload, decoding it, a YOLO call with its \<^verbatim>\<open>conf\<close>, the embedding of the query, one
  cosine call per catalog record (named by the record), the sort.
\<close>

datatype event =
    FileRead
  | ImDecode
  | YoloCall "real option"
  | EmbeddingCall
  | CosineCall string
  | SortCall

text \<open>
  The pretrained models, the OpenCV and SciPy routines and the file system are not part
  of the repository; the code is modelled over a record of them. \<^verbatim>\<open>yolo_model\<close> takes
  the image (\<^verbatim>\<open>None\<close> when decoding failed) and the \<^verbatim>\<open>conf\<close> keyword when given;
  \<^verbatim>\<open>clip_features\<close> is \<^verbatim>\<open>clip_processor\<close> followed by \<^verbatim>\<open>get_image_features\<close> on an
  RGB image; \<^verbatim>\<open>cosine\<close> is SciPy's cosine distance, on vectors for which it returns a
  number (equal lengths, no zero vector); \<^verbatim>\<open>round_sim\<close> is the rounding of the
  difference \<^verbatim>\<open>1 - cosine(...)\<close> to the float type NumPy computes it in
  (\<^verbatim>\<open>float32\<close> or \<^verbatim>\<open>float64\<close>, by the versions installed) and \<^verbatim>\<open>round_float64\<close>
  the rounding of a product of Python floats to a double; \<^verbatim>\<open>imdecode\<close> returns the
  image, \<^verbatim>\<open>None\<close> for bytes that are no image, or the exception OpenCV raises (on an
  empty buffer); \<^verbatim>\<open>dilate\<close> takes the mask, the kernel and the iterations;
  \<^verbatim>\<open>inpaint\<close> the image, the mask, the radius and the method; \<^verbatim>\<open>np_load\<close> returns
  the stored catalog or the exception it raised.
\<close>

record libs =
  yolo_model :: "image option \<Rightarrow> real option \<Rightarrow> yolo_result"
  cv2_resize :: "float_mask \<Rightarrow> nat \<times> nat \<Rightarrow> float_mask"
  bgr2gray :: "image \<Rightarrow> gray_image"
  canny :: "gray_image \<Rightarrow> nat \<Rightarrow> nat \<Rightarrow> gray_image"
  clip_features :: "image \<Rightarrow> clip_output"
  cosine :: "vector \<Rightarrow> vector \<Rightarrow> real"
  round_sim :: "real \<Rightarrow> real"
  round_float64 :: "real \<Rightarrow> real"
  numpy :: numpy_version
  imdecode :: "8 word list \<Rightarrow> error + image option"
  imread :: "string \<Rightarrow> image option"
  imencode :: "string \<Rightarrow> image \<Rightarrow> 8 word list"
  dilate :: "gray_image \<Rightarrow> gray_image \<Rightarrow> nat \<Rightarrow> gray_image"
  inpaint :: "image \<Rightarrow> gray_image \<Rightarrow> real \<Rightarrow> inpaint_flag \<Rightarrow> image"
  path_exists :: "string \<Rightarrow> bool"
  listdir :: "string \<Rightarrow> string list"
  np_load :: "string \<Rightarrow> error + catalog_item list"

section \<open>Image helpers\<close>

definition height :: "'a list list \<Rightarrow> nat" where
  "height img = length img"

definition width :: "'a list list \<Rightarrow> nat" where
  "width img = (case img of [] \<Rightarrow> 0 | r # _ \<Rightarrow> length r)"

definition same_shape :: "'a list list \<Rightarrow> 'b list list \<Rightarrow> bool" where
  "same_shape a b = (map length a = map length b)"

text \<open>Python's \<^verbatim>\<open>int(x)\<close> and the C cast behind \<^verbatim>\<open>astype(np.uint8)\<close> truncate towards zero.\<close>

definition py_int :: "real \<Rightarrow> int" where
  "py_int x = (if 0 \<le> x then \<lfloor>x\<rfloor> else \<lceil>x\<rceil>)"

definition astype_uint8 :: "real \<Rightarrow> 8 word" where
  "astype_uint8 x = word_of_int (py_int x)"

text \<open>\<^verbatim>\<open>(mask * 255).astype(np.uint8)\<close>, element by element.\<close>

definition mask_to_uint8 :: "float_mask \<Rightarrow> gray_image" where
  "mask_to_uint8 mask_f = map (map (\<lambda>x. astype_uint8 (x * 255))) mask_f"

definition and_pixel :: "pixel \<Rightarrow> pixel \<Rightarrow> pixel" where
  "and_pixel p q =
     (case p of (b1, g1, r1) \<Rightarrow> case q of (b2, g2, r2) \<Rightarrow> (b1 AND b2, g1 AND g2, r1 AND r2))"

definition stencil_pixel :: "pixel \<Rightarrow> pixel \<Rightarrow> 8 word \<Rightarrow> pixel" where
  "stencil_pixel p q m = (if m \<noteq> 0 then and_pixel p q else (0, 0, 0))"

text \<open>
  \<^verbatim>\<open>cv2.bitwise_and(src1, src2, mask=m)\<close> with no destination given: the result is a
  new array, zero where the mask byte is zero and \<^verbatim>\<open>src1 & src2\<close> elsewhere; OpenCV
  raises when the shapes differ.
\<close>

definition bitwise_and :: "image \<Rightarrow> image \<Rightarrow> gray_image \<Rightarrow> error + image" where
  "bitwise_and src1 src2 m =
     (if same_shape src1 src2 \<and> same_shape src1 m
      then Inr (map (\<lambda>(r1, r2, mr). map (\<lambda>(p, q, b). stencil_pixel p q b) (zip r1 (zip r2 mr)))
                    (zip src1 (zip src2 m)))
      else Inl CvError)"

definition bgr2rgb :: "image \<Rightarrow> image" where
  "bgr2rgb img = map (map (\<lambda>(b, g, r). (r, g, b))) img"

definition gray2rgb :: "gray_image \<Rightarrow> image" where
  "gray2rgb g = map (map (\<lambda>v. (v, v, v))) g"

section \<open>The embedding pipeline\<close>

text \<open>
  The stone view \<^verbatim>\<open>mask_img\<close> (main.py lines 50-57, \<^verbatim>\<open>index_catalog.py\<close> lines 27-34; the
  two files have the same text here).
\<close>

definition stone_view :: "libs \<Rightarrow> image \<Rightarrow> error + image" where
  "stone_view env cv2_img =
     (let results = yolo_model env (Some cv2_img) None in
      case masks results of
        None \<Rightarrow> Inr cv2_img
      | Some data \<Rightarrow>
          (case data of
             [] \<Rightarrow> Inl IndexError
           | mask0 # _ \<Rightarrow>
               (let mask_f = cv2_resize env mask0 (width cv2_img, height cv2_img);
                    mask_uint8 = mask_to_uint8 mask_f
                in bitwise_and cv2_img cv2_img mask_uint8)))"

text \<open>The structure view \<^verbatim>\<open>edges_3ch\<close> (main.py lines 59-61, \<^verbatim>\<open>index_catalog.py\<close> lines 37-39).\<close>

definition structure_view :: "libs \<Rightarrow> image \<Rightarrow> image" where
  "structure_view env cv2_img =
     (let gray = bgr2gray env cv2_img;
          edges = canny env gray 100 200
      in gray2rgb edges)"

text \<open>Indexing a tuple at 0.\<close>

definition item0 :: "pyval list \<Rightarrow> error + pyval" where
  "item0 xs = (case xs of [] \<Rightarrow> Inl IndexError | x # _ \<Rightarrow> Inr x)"

text \<open>main.py lines 67 and 72: one conditional expression, used for both views.\<close>

fun main_features :: "clip_output \<Rightarrow> error + pyval" where
  "main_features (PoolerOut p) = Inr p"
| "main_features (TupleOut xs) = item0 xs"
| "main_features (PlainTensor t) = Inr (Tensor t)"
| "main_features (OtherOut h i) = Inr NotTensor"

text \<open>\<^verbatim>\<open>index_catalog.py\<close> lines 48-53, the stone view.\<close>

fun index_stone_features :: "clip_output \<Rightarrow> error + pyval" where
  "index_stone_features (PoolerOut p) = Inr p"
| "index_stone_features (PlainTensor t) = Inr (Tensor t)"
| "index_stone_features (TupleOut xs) = item0 xs"
| "index_stone_features (OtherOut h i) = h"

text \<open>\<^verbatim>\<open>index_catalog.py\<close> lines 60-65, the structure view.\<close>

fun index_edge_features :: "clip_output \<Rightarrow> error + pyval" where
  "index_edge_features (PoolerOut p) = Inr p"
| "index_edge_features (PlainTensor t) = Inr (Tensor t)"
| "index_edge_features (TupleOut xs) = item0 xs"
| "index_edge_features (OtherOut h i) = i"

text \<open>
  \<^verbatim>\<open>torch.cat((a, b), dim=1)\<close> on 2-D tensors: a \<^verbatim>\<open>TypeError\<close> when an argument is not
  a tensor, a \<^verbatim>\<open>RuntimeError\<close> when the batch sizes differ, otherwise each row of
  \<^verbatim>\<open>a\<close> followed by the same row of \<^verbatim>\<open>b\<close>.
\<close>

fun torch_cat :: "pyval \<Rightarrow> pyval \<Rightarrow> error + tensor" where
  "torch_cat (Tensor a) (Tensor b) =
     (if length a = length b then Inr (map (\<lambda>(x, y). x @ y) (zip a b)) else Inl RuntimeError)"
| "torch_cat a b = Inl TypeError"

text \<open>
  \<^verbatim>\<open>combined.cpu().numpy().flatten().astype(np.float32)\<close>: the rows one after another;
  the elements are 32-bit floats already.
\<close>

definition flatten :: "tensor \<Rightarrow> vector" where
  "flatten t = concat t"

text \<open>\<^verbatim>\<open>get_combined_embedding\<close> of main.py.\<close>

definition main_get_combined_embedding :: "libs \<Rightarrow> image \<Rightarrow> error + vector" where
  "main_get_combined_embedding env cv2_img =
     (case stone_view env cv2_img of
        Inl e \<Rightarrow> Inl e
      | Inr mask_img \<Rightarrow>
          (let edges_3ch = structure_view env cv2_img in
           case main_features (clip_features env (bgr2rgb mask_img)) of
             Inl e \<Rightarrow> Inl e
           | Inr stone_features \<Rightarrow>
               (case main_features (clip_features env edges_3ch) of
                  Inl e \<Rightarrow> Inl e
                | Inr edge_features \<Rightarrow>
                    (case torch_cat stone_features edge_features of
                       Inl e \<Rightarrow> Inl e
                     | Inr combined \<Rightarrow> Inr (flatten combined)))))"

text \<open>\<^verbatim>\<open>get_combined_embedding\<close> of \<^verbatim>\<open>index_catalog.py\<close>.\<close>

definition index_get_combined_embedding :: "libs \<Rightarrow> image \<Rightarrow> error + vector" where
  "index_get_combined_embedding env cv2_img =
     (case stone_view env cv2_img of
        Inl e \<Rightarrow> Inl e
      | Inr mask_img \<Rightarrow>
          (let edges_3ch = structure_view env cv2_img in
           case index_stone_features (clip_features env (bgr2rgb mask_img)) of
             Inl e \<Rightarrow> Inl e
           | Inr stone_features \<Rightarrow>
               (case index_edge_features (clip_features env edges_3ch) of
                  Inl e \<Rightarrow> Inl e
                | Inr edge_features \<Rightarrow>
                    (case torch_cat stone_features edge_features of
                       Inl e \<Rightarrow> Inl e
                     | Inr combined \<Rightarrow> Inr (flatten combined)))))"

section \<open>The search endpoint (main.py)\<close>

definition BASE_URL :: string where
  "BASE_URL = ''http://192.168.1.106:8004''"

definition STATIC_IMG_PATH :: string where
  "STATIC_IMG_PATH = ''Rings/ring/''"

text \<open>main.py lines 42-46: a catalog that cannot be loaded is the empty array.\<close>

definition load_catalog :: "libs \<Rightarrow> catalog_item list" where
  "load_catalog env =
     (case np_load env ''catalog_data.npy'' of Inl e \<Rightarrow> [] | Inr data \<Rightarrow> data)"

text \<open>
  Python's \<^verbatim>\<open>round(x, 1)\<close>: to the nearest tenth, an exact tie to the even neighbour.
\<close>

definition round_half_even :: "real \<Rightarrow> int" where
  "round_half_even x =
     (let f = \<lfloor>x\<rfloor>; d = x - of_int f
      in if d < 1 / 2 then f else if 1 / 2 < d then f + 1 else if even f then f else f + 1)"

definition py_round1 :: "real \<Rightarrow> real" where
  "py_round1 x = of_int (round_half_even (x * 10)) / 10"

text \<open>
  The value the literal \<^verbatim>\<open>0.40\<close> takes in \<^verbatim>\<open>confidences[i] > 0.40\<close>, where the
  confidence is a \<^verbatim>\<open>float32\<close> scalar: the double nearest to 0.40 when the comparison
  is made in \<^verbatim>\<open>float64\<close>, the \<^verbatim>\<open>float32\<close> nearest to 0.40 when it is made in
  \<^verbatim>\<open>float32\<close>.
\<close>

definition conf_threshold :: "numpy_version \<Rightarrow> real" where
  "conf_threshold v =
     (case v of
        NumPy1 \<Rightarrow> 3602879701896397 / 9007199254740992
      | NumPy2 \<Rightarrow> 13421773 / 33554432)"

text \<open>main.py lines 95-98: the loop returns at the first box that is a confident person.\<close>

fun person_blocker :: "numpy_version \<Rightarrow> (real \<times> real) list \<Rightarrow> bool" where
  "person_blocker v [] = False"
| "person_blocker v ((cls, conf) # rest) =
     (if py_int cls = 0 \<and> conf_threshold v < conf then True else person_blocker v rest)"

text \<open>main.py lines 106-111: the dictionary built for one catalog record.\<close>

definition score_item :: "libs \<Rightarrow> vector \<Rightarrow> catalog_item \<Rightarrow> search_hit" where
  "score_item env query_vector item =
     (let sim = round_sim env (1 - cosine env query_vector (vector item))
      in \<lparr>name = name item,
          similarity = py_round1 (round_float64 env (sim * 100)),
          image_url = BASE_URL @ ''/static_images/'' @ name item\<rparr>)"

text \<open>main.py lines 104-111: the loop over the catalog, appending to \<^verbatim>\<open>results_list\<close>.\<close>

fun score_loop ::
  "libs \<Rightarrow> vector \<Rightarrow> catalog_item list \<Rightarrow> event list \<times> search_hit list
     \<Rightarrow> event list \<times> search_hit list" where
  "score_loop env query_vector [] acc = acc"
| "score_loop env query_vector (item # rest) (tr, results_list) =
     score_loop env query_vector rest
       (tr @ [CosineCall (name item)], results_list @ [score_item env query_vector item])"

text \<open>
  \<^verbatim>\<open>sorted(results_list, key=lambda x: x["similarity"], reverse=True)[:10]\<close>: a stable
  sort, largest similarity first, then the first ten.
\<close>

definition top_10_of :: "search_hit list \<Rightarrow> search_hit list" where
  "top_10_of results_list = take 10 (sort_key (\<lambda>x. - similarity x) results_list)"

text \<open>
  \<^verbatim>\<open>search_ring\<close>, main.py lines 77-122, on the loaded catalog and the bytes of the
  upload. The result is the calls made and the response, or the exception that
  escaped: \<^verbatim>\<open>cv2.imdecode\<close> may raise, and \<^verbatim>\<open>get_combined_embedding(None)\<close> raises
  at \<^verbatim>\<open>cv2_img.copy()\<close>.
\<close>

definition search_ring ::
  "libs \<Rightarrow> catalog_item list \<Rightarrow> 8 word list \<Rightarrow> event list \<times> (error + response)" where
  "search_ring env CATALOG_DATA contents =
     (if length CATALOG_DATA = 0
      then ([], Inr (ErrorJson ''Catalog is empty. Run indexing script.''))
      else
        (case imdecode env contents of
           Inl e \<Rightarrow> ([FileRead, ImDecode], Inl e)
         | Inr img \<Rightarrow>
        (let results = yolo_model env img (Some 0.15);
             tr = [FileRead, ImDecode, YoloCall (Some 0.15)]
         in if person_blocker (numpy env) (boxes results)
            then (tr, Inr (ErrorJson
                    ''Invalid Image: Person detected. Please photograph only the ring.''))
            else
              (case (case img of None \<Rightarrow> Inl AttributeError
                     | Some cv2_img \<Rightarrow> main_get_combined_embedding env cv2_img) of
                 Inl e \<Rightarrow> (tr @ [EmbeddingCall], Inl e)
               | Inr query_vector \<Rightarrow>
                   (case score_loop env query_vector CATALOG_DATA (tr @ [EmbeddingCall], []) of
                      (tr2, results_list) \<Rightarrow>
                        (let top_10 = top_10_of results_list in
                         case top_10 of
                           [] \<Rightarrow> (tr2 @ [SortCall], Inl IndexError)
                         | best # _ \<Rightarrow>
                             (if similarity best < 38.0
                              then (tr2 @ [SortCall], Inr (ErrorJson
                                ''No matching ring detected. Try a closer, centered photo.''))
                              else (tr2 @ [SortCall], Inr (ResultsJson top_10)))))))))"

section \<open>The stone-removal endpoint (main.py)\<close>

text \<open>
  \<^verbatim>\<open>os.path.join(a, b)\<close> on POSIX: an absolute \<^verbatim>\<open>b\<close> replaces \<^verbatim>\<open>a\<close>; otherwise a
  separator is added unless \<^verbatim>\<open>a\<close> is empty or ends with one.
\<close>

definition path_join :: "string \<Rightarrow> string \<Rightarrow> string" where
  "path_join a b =
     (if b \<noteq> [] \<and> hd b = CHR ''/'' then b
      else if a = [] \<or> last a = CHR ''/'' then a @ b
      else a @ ''/'' @ b)"

text \<open>\<^verbatim>\<open>np.ones((25, 25), np.uint8)\<close>.\<close>

definition ones :: "nat \<Rightarrow> nat \<Rightarrow> gray_image" where
  "ones r c = replicate r (replicate c 1)"

text \<open>\<^verbatim>\<open>cv2.merge([gray, gray, gray])\<close>: the grey level in each of the three channels.\<close>

definition merge3 :: "gray_image \<Rightarrow> image" where
  "merge3 g = map (map (\<lambda>v. (v, v, v))) g"

text \<open>\<^verbatim>\<open>remove_stone\<close>, main.py lines 146-174.\<close>

definition remove_stone :: "libs \<Rightarrow> string \<Rightarrow> error + response" where
  "remove_stone env image_name =
     (let img_path = path_join STATIC_IMG_PATH image_name in
      case imread env img_path of
        None \<Rightarrow> Inr (ErrorJson ''Image not found'')
      | Some img \<Rightarrow>
          (let gray = bgr2gray env img;
               structure_img = merge3 gray;
               results = yolo_model env (Some structure_img) (Some 0.15)
           in case masks results of
                Some data \<Rightarrow>
                  (case data of
                     [] \<Rightarrow> Inl IndexError
                   | mask0 # _ \<Rightarrow>
                       (let mask_f = cv2_resize env mask0 (width img, height img);
                            mask_uint8 = mask_to_uint8 mask_f;
                            kernel = ones 25 25;
                            mask_expanded = dilate env mask_uint8 kernel 1;
                            empty_setting = inpaint env structure_img mask_expanded 15 INPAINT_TELEA
                        in Inr (PngStream (imencode env ''.png'' empty_setting))))
              | None \<Rightarrow> Inr (PngStream (imencode env ''.png'' structure_img))))"

section \<open>The indexing procedure (\<^verbatim>\<open>index_catalog.py\<close>)\<close>

definition IMG_FOLDER :: string where
  "IMG_FOLDER = ''Rings/ring/''"

definition SAVE_PATH :: string where
  "SAVE_PATH = ''catalog_data.npy''"

text \<open>\<^verbatim>\<open>str.lower\<close> on the ASCII letters, \<^verbatim>\<open>str.endswith\<close> with one suffix.\<close>

definition lower_char :: "char \<Rightarrow> char" where
  "lower_char c =
     (let n = (of_char c :: nat) in if 65 \<le> n \<and> n \<le> 90 then char_of (n + 32) else c)"

definition lower :: "string \<Rightarrow> string" where
  "lower s = map lower_char s"

definition endswith :: "string \<Rightarrow> string \<Rightarrow> bool" where
  "endswith s suf = (length suf \<le> length s \<and> drop (length s - length suf) s = suf)"

text \<open>The filter of line 78: \<^verbatim>\<open>f.lower().endswith(('.png', '.jpg', '.jpeg'))\<close>.\<close>

definition is_image_name :: "string \<Rightarrow> bool" where
  "is_image_name f =
     (endswith (lower f) ''.png'' \<or> endswith (lower f) ''.jpg'' \<or> endswith (lower f) ''.jpeg'')"

text \<open>
  The loop of lines 81-98 over the file names, appending to \<^verbatim>\<open>catalog_list\<close>: a
  file that does not decode is passed over, an exception of the embedding is caught.
\<close>

fun index_loop :: "libs \<Rightarrow> string list \<Rightarrow> catalog_item list \<Rightarrow> catalog_item list" where
  "index_loop env [] catalog_list = catalog_list"
| "index_loop env (img_name # rest) catalog_list =
     (let path = path_join IMG_FOLDER img_name in
      case imread env path of
        None \<Rightarrow> index_loop env rest catalog_list
      | Some img \<Rightarrow>
          (case index_get_combined_embedding env img of
             Inl e \<Rightarrow> index_loop env rest catalog_list
           | Inr v \<Rightarrow>
               index_loop env rest (catalog_list @ [\<lparr>name = img_name, vector = v\<rparr>])))"

text \<open>
  \<^verbatim>\<open>run_indexing\<close>: the list handed to \<^verbatim>\<open>np.save(SAVE_PATH, ...)\<close>, or \<^verbatim>\<open>None\<close> when
  the folder is missing and the procedure returns without saving.
\<close>

definition run_indexing :: "libs \<Rightarrow> catalog_item list option" where
  "run_indexing env =
     (if \<not> path_exists env IMG_FOLDER then None
      else
        (let images = filter is_image_name (listdir env IMG_FOLDER)
         in Some (index_loop env images [])))"

section \<open>The specification's reading of the stone view\<close>

text \<open>
  The specification's words for the mask: binarised at the threshold 0.5, scaled to
  [0, 255]. A mask value of at least one half becomes 255, any other value 0.
\<close>

definition spec_binarize :: "float_mask \<Rightarrow> gray_image" where
  "spec_binarize mask_f = map (map (\<lambda>x. if 1 / 2 \<le> x then 255 else 0)) mask_f"

definition spec_stone_view :: "libs \<Rightarrow> image \<Rightarrow> error + image" where
  "spec_stone_view env cv2_img =
     (case masks (yolo_model env (Some cv2_img) None) of
        None \<Rightarrow> Inr cv2_img
      | Some data \<Rightarrow>
          (case data of
             [] \<Rightarrow> Inl IndexError
           | mask0 # _ \<Rightarrow>
               bitwise_and cv2_img cv2_img
                 (spec_binarize (cv2_resize env mask0 (width cv2_img, height cv2_img)))))"

section \<open>The embedding model's contract\<close>

text \<open>
  \<^verbatim>\<open>CLIPModel.get_image_features\<close> on one image returns the projected features as a
  tensor with one row, either directly or as the \<^verbatim>\<open>pooler_output\<close> of its result
  object, depending on the version of the library. \<open>clip_row\<close> is that row.
\<close>

fun clip_row :: "clip_output \<Rightarrow> vector option" where
  "clip_row (PlainTensor [r]) = Some r"
| "clip_row (PoolerOut (Tensor [r])) = Some r"
| "clip_row out = None"


definition is_other :: "clip_output \<Rightarrow> bool" where
  "is_other out = (case out of OtherOut h i \<Rightarrow> True | _ \<Rightarrow> False)"

section \<open>The records the indexing loop writes\<close>

text \<open>
  What one pass of the indexing loop adds for a file name: nothing when the file does not
  decode or the embedding raises, the record otherwise.
\<close>

definition index_record :: "libs \<Rightarrow> string \<Rightarrow> catalog_item option" where
  "index_record env img_name =
     (case imread env (path_join IMG_FOLDER img_name) of
        None \<Rightarrow> None
      | Some img \<Rightarrow>
          (case index_get_combined_embedding env img of
             Inl e \<Rightarrow> None
           | Inr v \<Rightarrow> Some \<lparr>name = img_name, vector = v\<rparr>))"

section \<open>A small test bed\<close>

text \<open>
  Stand-ins for the libraries on an image of one row of four pixels, used to run the
  definitions. YOLO answers with a given result and the embedding model with a given
  output. Resizing the one-row mask \<open>[0, 1]\<close> to width 4 gives what bilinear
  interpolation gives, \<open>[0, 1/4, 3/4, 1]\<close>, and leaves any other mask as it is. The
  grey level is the green channel, edge detection leaves its argument as it is, the
  cosine distance of a catalog vector is read off its first element, in hundredths, the
  roundings leave their argument as it is, and NumPy is version 2.
\<close>

definition demo_image :: image where
  "demo_image = [[(10, 20, 30), (40, 50, 60), (70, 80, 90), (100, 110, 120)]]"

definition demo_resize :: "float_mask \<Rightarrow> nat \<times> nat \<Rightarrow> float_mask" where
  "demo_resize m dsize = (if dsize = (4, 1) \<and> m = [[0, 1]] then [[0, 1 / 4, 3 / 4, 1]] else m)"

definition demo_libs :: "yolo_result \<Rightarrow> clip_output \<Rightarrow> libs" where
  "demo_libs yr out =
     \<lparr>yolo_model = (\<lambda>img conf. yr),
      cv2_resize = demo_resize,
      bgr2gray = map (map (\<lambda>(b, g, r). g)),
      canny = (\<lambda>g lo hi. g),
      clip_features = (\<lambda>x. out),
      cosine = (\<lambda>u v. case v of [] \<Rightarrow> 1 | x # _ \<Rightarrow> of_nat (unat x) / 100),
      round_sim = (\<lambda>x. x),
      round_float64 = (\<lambda>x. x),
      numpy = NumPy2,
      imdecode = (\<lambda>bs. if bs = [] then Inl CvError else Inr (Some demo_image)),
      imread = (\<lambda>p. if p = ''Rings/ring/a.PNG'' \<or> p = ''Rings/ring/b.jpg''
                    then Some demo_image else None),
      imencode = (\<lambda>ext img. [137, 80, 78, 71]),
      dilate = (\<lambda>m k n. m),
      inpaint = (\<lambda>img m r f. img),
      path_exists = (\<lambda>p. True),
      listdir = (\<lambda>p. [''a.PNG'', ''notes.txt'', ''b.jpg'', ''c.jpeg'']),
      np_load = (\<lambda>p. Inl FileNotFoundError)\<rparr>"

definition no_detection :: yolo_result where
  "no_detection = \<lparr>masks = None, boxes = []\<rparr>"

definition stone_found :: yolo_result where
  "stone_found = \<lparr>masks = Some [[[0, 1]]], boxes = [(41, 0.9)]\<rparr>"

definition person_seen :: yolo_result where
  "person_seen = \<lparr>masks = None, boxes = [(41, 0.9), (0, 0.55)]\<rparr>"


definition clip_512 :: clip_output where
  "clip_512 = PlainTensor [replicate 512 0]"


definition far_catalog :: "catalog_item list" where
  "far_catalog = [\<lparr>name = ''a.png'', vector = [90]\<rparr>]"




section \<open>Auxiliary facts\<close>

lemma and_pixel_same: "and_pixel p p = p"
  by (cases p) (simp add: and_pixel_def)

lemma stencil_pixel_same: "stencil_pixel p p b = (if b = 0 then (0, 0, 0) else p)"
  by (simp add: stencil_pixel_def and_pixel_same)

lemma same_shape_lengths:
  assumes "same_shape a b"
  shows "length a = length b" and "i < length a \<Longrightarrow> length (a ! i) = length (b ! i)"
proof -
  from assms have eq: "map length a = map length b" by (simp add: same_shape_def)
  then show len: "length a = length b" by (rule map_eq_imp_length_eq)
  assume "i < length a"
  with eq len show "length (a ! i) = length (b ! i)"
    by (metis nth_map)
qed

lemma bitwise_and_self:
  assumes "same_shape img m"
  shows "\<exists>out. bitwise_and img img m = Inr out \<and> same_shape out img \<and>
           (\<forall>i<length img. \<forall>j<length (img ! i).
              out ! i ! j = (if m ! i ! j = 0 then (0, 0, 0) else img ! i ! j))"
proof -
  let ?out = "map (\<lambda>(r1, r2, mr). map (\<lambda>(p, q, b). stencil_pixel p q b) (zip r1 (zip r2 mr)))
                    (zip img (zip img m))"
  have lm: "length m = length img" using same_shape_lengths(1)[OF assms] by simp
  have lr: "\<And>i. i < length img \<Longrightarrow> length (m ! i) = length (img ! i)"
    using same_shape_lengths(2)[OF assms] by simp
  have eq: "bitwise_and img img m = Inr ?out"
    using assms by (simp add: bitwise_and_def same_shape_def)
  have shape: "same_shape ?out img"
    unfolding same_shape_def
    by (rule nth_equalityI) (simp_all add: lm lr)
  have px: "\<forall>i<length img. \<forall>j<length (img ! i).
              ?out ! i ! j = (if m ! i ! j = 0 then (0, 0, 0) else img ! i ! j)"
    by (simp add: lm lr stencil_pixel_same)
  from eq shape px show ?thesis by blast
qed

lemma mask_to_uint8_shape: "same_shape a (mask_to_uint8 b) = same_shape a b"
  by (simp add: same_shape_def mask_to_uint8_def comp_def)

lemma mask_to_uint8_nth:
  "i < length b \<Longrightarrow> j < length (b ! i) \<Longrightarrow> mask_to_uint8 b ! i ! j = astype_uint8 (b ! i ! j * 255)"
  by (simp add: mask_to_uint8_def)

lemma mask_byte_zero_iff:
  assumes "0 \<le> x" "x \<le> 1"
  shows "(astype_uint8 (x * 255) = 0) = (x < 1 / 255)"
proof -
  have nn: "0 \<le> x * 255" using assms by simp
  have le: "x * 255 \<le> 255" using assms by simp
  have f0: "0 \<le> \<lfloor>x * 255\<rfloor>" using nn by simp
  have f1: "\<lfloor>x * 255\<rfloor> \<le> 255" using le by (simp add: floor_le_iff) 
  have "(astype_uint8 (x * 255) = 0) = ((2::int) ^ 8 dvd \<lfloor>x * 255\<rfloor>)"
    using nn by (simp add: astype_uint8_def py_int_def word_of_int_eq_0_iff)
  also have "\<dots> = (\<lfloor>x * 255\<rfloor> = 0)"
  proof
    assume "(2::int) ^ 8 dvd \<lfloor>x * 255\<rfloor>"
    then obtain k where k: "\<lfloor>x * 255\<rfloor> = 256 * k" by (auto simp: dvd_def)
    with f0 f1 have "k = 0" by arith
    with k show "\<lfloor>x * 255\<rfloor> = 0" by simp
  next
    assume "\<lfloor>x * 255\<rfloor> = 0" then show "(2::int) ^ 8 dvd \<lfloor>x * 255\<rfloor>" by simp
  qed
  also have "\<dots> = (x * 255 < 1)"
    using nn by (auto simp: floor_eq_iff)
  also have "\<dots> = (x < 1 / 255)" by (simp add: field_simps)
  finally show ?thesis .
qed

lemma index_features_eq_main:
  assumes "\<not> is_other out"
  shows "index_stone_features out = main_features out" and "index_edge_features out = main_features out"
  using assms by (cases out; simp add: is_other_def)+

lemma features_of_clip_row:
  assumes "clip_row out = Some r"
  shows "main_features out = Inr (Tensor [r])"
    and "index_stone_features out = Inr (Tensor [r])"
    and "index_edge_features out = Inr (Tensor [r])"
  using assms by (induction out rule: clip_row.induct; simp)+

lemma score_loop_eq:
  "score_loop env q items (tr, acc) =
     (tr @ map (\<lambda>item. CosineCall (name item)) items, acc @ map (score_item env q) items)"
  by (induction items arbitrary: tr acc) simp_all


lemma conf_threshold_bounds:
  "0.40 < conf_threshold v \<and> conf_threshold v \<le> 13421773 / 33554432"
  by (cases v) (simp_all add: conf_threshold_def)










lemma top_10_length: "length (top_10_of xs) = min 10 (length xs)"
  by (simp add: top_10_of_def)

lemma top_10_subset: "set (top_10_of xs) \<subseteq> set xs"
  unfolding top_10_of_def using set_take_subset [of 10 "sort_key (\<lambda>x. - similarity x) xs"] by simp



lemma top_10_nonempty: "xs \<noteq> [] \<Longrightarrow> top_10_of xs \<noteq> []"
  using top_10_length [of xs] by (cases xs) auto

lemma search_ring_scored:
  assumes "CATALOG_DATA \<noteq> []"
    and "imdecode env contents = Inr (Some img)"
    and "\<not> person_blocker (numpy env) (boxes (yolo_model env (Some img) (Some 0.15)))"
    and "main_get_combined_embedding env img = Inr q"
    and "top_10_of (map (score_item env q) CATALOG_DATA) = best # rest"
  shows "search_ring env CATALOG_DATA contents =
           ([FileRead, ImDecode, YoloCall (Some 0.15), EmbeddingCall]
              @ map (\<lambda>item. CosineCall (name item)) CATALOG_DATA @ [SortCall],
            if similarity best < 38
            then Inr (ErrorJson ''No matching ring detected. Try a closer, centered photo.'')
            else Inr (ResultsJson (best # rest)))"
  using assms by (simp add: search_ring_def score_loop_eq)

lemma demo_embedding:
  "main_get_combined_embedding (demo_libs no_detection clip_512) demo_image
     = Inr (replicate 512 0 @ replicate 512 0)"
  by (simp add: main_get_combined_embedding_def stone_view_def demo_libs_def no_detection_def
      clip_512_def flatten_def)

lemma index_loop_eq:
  "index_loop env names acc = acc @ List.map_filter (index_record env) names"
  by (induction names arbitrary: acc)
     (simp_all add: map_filter_simps index_record_def split: option.splits sum.splits)

lemma index_record_SomeD:
  assumes "index_record env n = Some r"
  shows "name r = n \<and> (\<exists>img. imread env (path_join IMG_FOLDER n) = Some img \<and>
           index_get_combined_embedding env img = Inr (vector r))"
  using assms by (auto simp: index_record_def split: option.splits sum.splits)

lemma map_filter_memD:
  assumes "r \<in> set (List.map_filter f xs)"
  shows "\<exists>x \<in> set xs. f x = Some r"
  using assms by (auto simp: map_filter_def)

lemma names_of_index_records:
  "map name (List.map_filter (index_record env) names)
     = filter (\<lambda>n. index_record env n \<noteq> None) names"
proof (induction names)
  case Nil
  show ?case by (simp add: map_filter_simps)
next
  case (Cons n names)
  show ?case
  proof (cases "index_record env n")
    case None
    with Cons show ?thesis by (simp add: map_filter_simps)
  next
    case (Some r)
    with Cons index_record_SomeD [OF Some] show ?thesis by (simp add: map_filter_simps)
  qed
qed

lemma lower_append: "lower (a @ b) = lower a @ lower b"
  by (simp add: lower_def)

lemma length_lower: "length (lower s) = length s"
  by (simp add: lower_def)

lemma endswith_lower_iff:
  "endswith (lower f) suf = (\<exists>stem ext. f = stem @ ext \<and> lower ext = suf)"
proof
  assume e: "endswith (lower f) suf"
  let ?k = "length f - length suf"
  have "f = take ?k f @ drop ?k f" by simp
  moreover have "lower (drop ?k f) = suf"
    using e by (simp add: endswith_def lower_def drop_map)
  ultimately show "\<exists>stem ext. f = stem @ ext \<and> lower ext = suf" by blast
next
  assume "\<exists>stem ext. f = stem @ ext \<and> lower ext = suf"
  then obtain stem ext where f: "f = stem @ ext" and s: "lower ext = suf" by blast
  have "length suf = length ext" using s length_lower [of ext] by simp
  then show "endswith (lower f) suf"
    using f s by (simp add: endswith_def lower_append length_lower)
qed

lemma is_image_name_iff:
  "is_image_name f =
     (\<exists>stem ext. f = stem @ ext \<and> lower ext \<in> {''.png'', ''.jpg'', ''.jpeg''})"
  unfolding is_image_name_def endswith_lower_iff by blast

lemma index_embedding_length:
  assumes "\<forall>x. \<exists>row. clip_row (clip_features env x) = Some row \<and> length row = 512"
    and "index_get_combined_embedding env img = Inr v"
  shows "length v = 1024"
proof (cases "stone_view env img")
  case (Inl e)
  with assms(2) show ?thesis by (simp add: index_get_combined_embedding_def)
next
  case (Inr mask_img)
  from assms(1) obtain s where s: "clip_row (clip_features env (bgr2rgb mask_img)) = Some s"
    "length s = 512" by blast
  from assms(1) obtain e where e: "clip_row (clip_features env (structure_view env img)) = Some e"
    "length e = 512" by blast
  have "index_get_combined_embedding env img = Inr (s @ e)"
    using Inr s(1) e(1)
    by (simp add: index_get_combined_embedding_def features_of_clip_row flatten_def)
  with assms(2) s(2) e(2) show ?thesis by auto
qed

section \<open>The embedding pipeline: claims C1 to C4\<close>

text \<open>
  Claim C1. For every image, the embedding computed by the indexing procedure equals the
  embedding computed by the query procedure, element for element, so byte for byte. The
  two functions have the same text up to how they take the feature tensor out of the
  model's result, and they take out the same tensor whenever that result carries
  \<^verbatim>\<open>pooler_output\<close>, is a tensor, or is a tuple. \<^verbatim>\<open>CLIPModel.get_image_features\<close> returns a
  tensor or an object with \<^verbatim>\<open>pooler_output\<close>, which is the hypothesis. The models are
  taken as functions: the same input gives the same output.
\<close>

theorem embedding_index_eq_main:
  assumes "\<forall>x. \<not> is_other (clip_features env x)"
  shows "index_get_combined_embedding env cv2_img = main_get_combined_embedding env cv2_img"
proof -
  have "index_stone_features (clip_features env x) = main_features (clip_features env x)"
    and "index_edge_features (clip_features env x) = main_features (clip_features env x)" for x
    using assms by (simp_all add: index_features_eq_main)
  then show ?thesis
    by (simp add: index_get_combined_embedding_def main_get_combined_embedding_def
        split: sum.splits)
qed

theorem embedding_index_eq_main_witness:
  "index_get_combined_embedding (demo_libs stone_found clip_512) demo_image
     = main_get_combined_embedding (demo_libs stone_found clip_512) demo_image"
proof -
  have h: "\<forall>x. \<not> is_other (clip_features (demo_libs stone_found clip_512) x)"
    by (simp add: demo_libs_def clip_512_def is_other_def)
  show ?thesis by (rule embedding_index_eq_main [OF h])
qed

text \<open>
  The fallback branches, which the embedding model never reaches, are where the two texts
  part: on an object that has no \<^verbatim>\<open>pooler_output\<close> and is neither a tensor nor a tuple,
  main.py hands the object itself to \<^verbatim>\<open>torch.cat\<close>, which raises, and the indexing
  procedure reads \<^verbatim>\<open>last_hidden_state[:, 0]\<close> and \<^verbatim>\<open>outputs[0]\<close>.
\<close>

lemma fallback_branches_differ:
  "index_get_combined_embedding
      (demo_libs no_detection (OtherOut (Inr (Tensor [[1]])) (Inr (Tensor [[2]])))) demo_image
     = Inr [1, 2] \<and>
   main_get_combined_embedding
      (demo_libs no_detection (OtherOut (Inr (Tensor [[1]])) (Inr (Tensor [[2]])))) demo_image
     = Inl TypeError"
  by code_simp

text \<open>
  Claim C2. When the embedding model yields a 512-element row for the stone view and a
  512-element row for the structure view, the vector returned by
  \<^verbatim>\<open>get_combined_embedding\<close>, in main.py and in \<^verbatim>\<open>index_catalog.py\<close> alike, is the stone
  row followed by the structure row: 1024 32-bit floats, the first 512 the stone
  embedding and the last 512 the structure embedding.
\<close>

theorem fused_vector_layout:
  assumes "stone_view env cv2_img = Inr mask_img"
    and "clip_row (clip_features env (bgr2rgb mask_img)) = Some s"
    and "clip_row (clip_features env (structure_view env cv2_img)) = Some e"
    and "length s = 512" and "length e = 512"
  shows "main_get_combined_embedding env cv2_img = Inr (s @ e) \<and>
         index_get_combined_embedding env cv2_img = Inr (s @ e) \<and>
         length (s @ e) = 1024 \<and> take 512 (s @ e) = s \<and> drop 512 (s @ e) = e"
  using assms
  by (simp add: main_get_combined_embedding_def index_get_combined_embedding_def
      features_of_clip_row flatten_def)

theorem fused_vector_layout_witness:
  "main_get_combined_embedding (demo_libs no_detection clip_512) demo_image
     = Inr (replicate 512 0 @ replicate 512 0) \<and>
   length (replicate 512 (0::32 word) @ replicate 512 0) = 1024"
proof -
  have 1: "stone_view (demo_libs no_detection clip_512) demo_image = Inr demo_image"
    by code_simp
  have 2: "clip_row (clip_features (demo_libs no_detection clip_512) x) = Some (replicate 512 0)" for x
    by (simp add: demo_libs_def clip_512_def)
  have 3: "length (replicate 512 (0::32 word)) = 512" by simp
  show ?thesis using fused_vector_layout [OF 1 2 2 3 3] by simp
qed

text \<open>
  Claim C3, as stated, says the resized mask is binarised at 0.5. The code scales the
  mask by 255 and truncates, and OpenCV keeps a pixel wherever the mask byte is not zero.
  On a row of four pixels whose resized mask is \<open>[0, 1/4, 3/4, 1]\<close>, the second pixel
  has mask value 1/4: the code keeps it (mask byte 63), a binarisation at 0.5 zeroes it.
\<close>

theorem stone_view_half_threshold_counterexample:
  "stone_view (demo_libs stone_found clip_512) demo_image
     = Inr [[(0, 0, 0), (40, 50, 60), (70, 80, 90), (100, 110, 120)]] \<and>
   spec_stone_view (demo_libs stone_found clip_512) demo_image
     = Inr [[(0, 0, 0), (0, 0, 0), (70, 80, 90), (100, 110, 120)]]"
  by code_simp

text \<open>
  Claim C3, amended. When the segmentation model produces at least one mask,
  \<^verbatim>\<open>get_combined_embedding\<close> takes the first mask, resizes it to the width and height
  of the image, multiplies it by 255 and truncates each value to a byte, and applies the
  result as a stencil: the stone view has the shape of the image, a pixel whose mask byte
  is zero becomes zero, and every other pixel keeps its value. For a mask value between
  0 and 1 the byte is zero exactly when the value is below 1/255. The hypothesis on the
  shape is that \<^verbatim>\<open>cv2.resize\<close> returns the size it was asked for.
\<close>

theorem stone_view_stencil:
  assumes "masks (yolo_model env (Some cv2_img) None) = Some (mask0 # rest)"
    and "same_shape cv2_img (cv2_resize env mask0 (width cv2_img, height cv2_img))"
  shows "\<exists>out. stone_view env cv2_img = Inr out \<and> same_shape out cv2_img \<and>
           (\<forall>i<length cv2_img. \<forall>j<length (cv2_img ! i).
              out ! i ! j =
                (if astype_uint8 (cv2_resize env mask0 (width cv2_img, height cv2_img) ! i ! j * 255) = 0
                 then (0, 0, 0) else cv2_img ! i ! j) \<and>
              (0 \<le> cv2_resize env mask0 (width cv2_img, height cv2_img) ! i ! j \<and>
               cv2_resize env mask0 (width cv2_img, height cv2_img) ! i ! j \<le> 1 \<longrightarrow>
               out ! i ! j =
                 (if cv2_resize env mask0 (width cv2_img, height cv2_img) ! i ! j < 1 / 255
                  then (0, 0, 0) else cv2_img ! i ! j)))"
proof -
  let ?m = "cv2_resize env mask0 (width cv2_img, height cv2_img)"
  have sh: "same_shape cv2_img (mask_to_uint8 ?m)"
    using assms(2) by (simp add: mask_to_uint8_shape)
  have sv: "stone_view env cv2_img = bitwise_and cv2_img cv2_img (mask_to_uint8 ?m)"
    using assms(1) by (simp add: stone_view_def)
  from bitwise_and_self [OF sh] obtain out where
    out: "bitwise_and cv2_img cv2_img (mask_to_uint8 ?m) = Inr out" "same_shape out cv2_img"
    and px: "\<forall>i<length cv2_img. \<forall>j<length (cv2_img ! i).
              out ! i ! j = (if mask_to_uint8 ?m ! i ! j = 0 then (0, 0, 0) else cv2_img ! i ! j)"
    by blast
  have lm: "length ?m = length cv2_img"
    and lr: "\<And>i. i < length cv2_img \<Longrightarrow> length (?m ! i) = length (cv2_img ! i)"
    using same_shape_lengths [of cv2_img ?m] assms(2) by simp_all
  have px': "\<forall>i<length cv2_img. \<forall>j<length (cv2_img ! i).
              out ! i ! j = (if astype_uint8 (?m ! i ! j * 255) = 0 then (0, 0, 0) else cv2_img ! i ! j)"
    using px by (simp add: mask_to_uint8_nth lm lr)
  have both: "\<forall>i<length cv2_img. \<forall>j<length (cv2_img ! i).
          out ! i ! j = (if astype_uint8 (?m ! i ! j * 255) = 0 then (0, 0, 0) else cv2_img ! i ! j) \<and>
          (0 \<le> ?m ! i ! j \<and> ?m ! i ! j \<le> 1 \<longrightarrow>
           out ! i ! j = (if ?m ! i ! j < 1 / 255 then (0, 0, 0) else cv2_img ! i ! j))"
    using px' mask_byte_zero_iff by simp
  show ?thesis
  proof (intro exI conjI)
    show "stone_view env cv2_img = Inr out" using sv out(1) by simp
    show "same_shape out cv2_img" by (rule out(2))
    show "\<forall>i<length cv2_img. \<forall>j<length (cv2_img ! i).
          out ! i ! j = (if astype_uint8 (?m ! i ! j * 255) = 0 then (0, 0, 0) else cv2_img ! i ! j) \<and>
          (0 \<le> ?m ! i ! j \<and> ?m ! i ! j \<le> 1 \<longrightarrow>
           out ! i ! j = (if ?m ! i ! j < 1 / 255 then (0, 0, 0) else cv2_img ! i ! j))"
      by (rule both)
  qed
qed

theorem stone_view_stencil_witness:
  "\<exists>out. stone_view (demo_libs stone_found clip_512) demo_image = Inr out \<and>
     out ! 0 ! 0 = (0, 0, 0) \<and> out ! 0 ! 1 = (40, 50, 60)"
proof -
  let ?D = "demo_libs stone_found clip_512"
  have r: "cv2_resize ?D [[0, 1]] (width demo_image, height demo_image) = [[0, 1 / 4, 3 / 4, 1]]"
    by (simp add: demo_libs_def demo_resize_def demo_image_def width_def height_def)
  have h1: "masks (yolo_model ?D (Some demo_image) None) = Some ([[0, 1]] # [])"
    by (simp add: demo_libs_def stone_found_def)
  have h2: "same_shape demo_image (cv2_resize ?D [[0, 1]] (width demo_image, height demo_image))"
    unfolding r by (simp add: same_shape_def demo_image_def)
  from stone_view_stencil [OF h1 h2] obtain out where out: "stone_view ?D demo_image = Inr out"
    and px: "\<forall>i<length demo_image. \<forall>j<length (demo_image ! i).
       (0 \<le> [[0, 1 / 4, 3 / 4, 1 :: real]] ! i ! j \<and> [[0, 1 / 4, 3 / 4, 1 :: real]] ! i ! j \<le> 1 \<longrightarrow>
         out ! i ! j = (if [[0, 1 / 4, 3 / 4, 1 :: real]] ! i ! j < 1 / 255
                        then (0, 0, 0) else demo_image ! i ! j))"
    unfolding r by blast
  from px have "out ! 0 ! 0 = (0, 0, 0)" by (simp add: demo_image_def)
  moreover from px have "out ! 0 ! 1 = (40, 50, 60)" by (simp add: demo_image_def)
  ultimately show ?thesis using out by blast
qed

text \<open>
  Claim C4. When the segmentation model produces no mask, the stone view is the original
  image, unchanged, and it is this image (in R, G, B order) that is passed to the
  embedding model for the stone features, in main.py and in \<^verbatim>\<open>index_catalog.py\<close>.
\<close>

theorem stone_view_no_mask:
  assumes "masks (yolo_model env (Some cv2_img) None) = None"
  shows "stone_view env cv2_img = Inr cv2_img \<and>
         main_get_combined_embedding env cv2_img =
           (case main_features (clip_features env (bgr2rgb cv2_img)) of
              Inl e \<Rightarrow> Inl e
            | Inr stone_features \<Rightarrow>
                (case main_features (clip_features env (structure_view env cv2_img)) of
                   Inl e \<Rightarrow> Inl e
                 | Inr edge_features \<Rightarrow>
                     (case torch_cat stone_features edge_features of
                        Inl e \<Rightarrow> Inl e
                      | Inr combined \<Rightarrow> Inr (flatten combined)))) \<and>
         index_get_combined_embedding env cv2_img =
           (case index_stone_features (clip_features env (bgr2rgb cv2_img)) of
              Inl e \<Rightarrow> Inl e
            | Inr stone_features \<Rightarrow>
                (case index_edge_features (clip_features env (structure_view env cv2_img)) of
                   Inl e \<Rightarrow> Inl e
                 | Inr edge_features \<Rightarrow>
                     (case torch_cat stone_features edge_features of
                        Inl e \<Rightarrow> Inl e
                      | Inr combined \<Rightarrow> Inr (flatten combined))))"
proof -
  have sv: "stone_view env cv2_img = Inr cv2_img"
    using assms by (simp add: stone_view_def)
  show ?thesis
    by (simp add: sv main_get_combined_embedding_def index_get_combined_embedding_def)
qed

theorem stone_view_no_mask_witness:
  "stone_view (demo_libs no_detection clip_512) demo_image = Inr demo_image"
proof -
  have h: "masks (yolo_model (demo_libs no_detection clip_512) (Some demo_image) None) = None"
    by (simp add: demo_libs_def no_detection_def)
  show ?thesis using stone_view_no_mask [OF h] by blast
qed

section \<open>The search endpoint: claims C5, C6, C7 and C9\<close>







text \<open>
  Claim C7, as stated, says the no-match gate runs before scoring. On a catalog of one
  record that scores 10.0, the request is rejected as no match and the cosine call for
  that record has been made before the rejection.
\<close>

theorem quality_gate_before_scoring_counterexample:
  "search_ring (demo_libs no_detection clip_512) far_catalog [1] =
     ([FileRead, ImDecode, YoloCall (Some 0.15), EmbeddingCall, CosineCall ''a.png'', SortCall],
      Inr (ErrorJson ''No matching ring detected. Try a closer, centered photo.'')) \<and>
   CosineCall ''a.png'' \<in> set (fst (search_ring (demo_libs no_detection clip_512) far_catalog [1]))"
  by code_simp

text \<open>
  Claim C7, amended. For a non-empty catalog and a request that reaches scoring (the
  upload decodes, no confident person is detected, the embedding succeeds), if every
  catalog record scores below 38.0, so that the best of the top ten does, the request is
  rejected with the no-match error instead of the result list; this gate runs after the
  query has been scored against every catalog record and the results have been sorted.
\<close>

theorem quality_gate_after_scoring:
  assumes "CATALOG_DATA \<noteq> []"
    and "imdecode env contents = Inr (Some img)"
    and "\<not> person_blocker (numpy env) (boxes (yolo_model env (Some img) (Some 0.15)))"
    and "main_get_combined_embedding env img = Inr q"
    and "\<forall>item \<in> set CATALOG_DATA. similarity (score_item env q item) < 38"
  shows "search_ring env CATALOG_DATA contents =
           ([FileRead, ImDecode, YoloCall (Some 0.15), EmbeddingCall]
              @ map (\<lambda>item. CosineCall (name item)) CATALOG_DATA @ [SortCall],
            Inr (ErrorJson ''No matching ring detected. Try a closer, centered photo.''))"
proof -
  let ?hits = "map (score_item env q) CATALOG_DATA"
  have ne: "?hits \<noteq> []" using assms(1) by simp
  then obtain best rest where top: "top_10_of ?hits = best # rest"
    using top_10_nonempty [OF ne] by (cases "top_10_of ?hits") auto
  then have "best \<in> set (top_10_of ?hits)" by simp
  then have "best \<in> set ?hits" using top_10_subset by blast
  then have "similarity best < 38" using assms(5) by auto
  then show ?thesis using search_ring_scored [OF assms(1-4) top] by simp
qed

theorem quality_gate_after_scoring_witness:
  "search_ring (demo_libs no_detection clip_512) far_catalog [1] =
     ([FileRead, ImDecode, YoloCall (Some 0.15), EmbeddingCall]
        @ map (\<lambda>item. CosineCall (name item)) far_catalog @ [SortCall],
      Inr (ErrorJson ''No matching ring detected. Try a closer, centered photo.''))"
proof -
  let ?D = "demo_libs no_detection clip_512"
  have h1: "far_catalog \<noteq> []" by (simp add: far_catalog_def)
  have h2: "imdecode ?D [1] = Inr (Some demo_image)" by (simp add: demo_libs_def)
  have h3: "\<not> person_blocker (numpy ?D) (boxes (yolo_model ?D (Some demo_image) (Some 0.15)))"
    by (simp add: demo_libs_def no_detection_def)
  have h5: "\<forall>item \<in> set far_catalog.
              similarity (score_item ?D (replicate 512 0 @ replicate 512 0) item) < 38"
    by (simp add: far_catalog_def score_item_def demo_libs_def py_round1_def round_half_even_def)
  show ?thesis
    by (rule quality_gate_after_scoring [OF h1 h2 h3 demo_embedding h5])
qed

text \<open>
  Claim C9. A \<^verbatim>\<open>/search\<close> request on an empty catalog returns the catalog-empty error
  with no call made: the upload is not read, no model runs, no embedding is computed.
  A catalog file that fails to load at start-up gives the empty catalog, hence this
  answer.
\<close>

theorem empty_catalog_rejected:
  "search_ring env [] contents = ([], Inr (ErrorJson ''Catalog is empty. Run indexing script.'')) \<and>
   (np_load env ''catalog_data.npy'' = Inl e \<longrightarrow>
      load_catalog env = [] \<and>
      search_ring env (load_catalog env) contents
        = ([], Inr (ErrorJson ''Catalog is empty. Run indexing script.'')))"
  by (simp add: search_ring_def load_catalog_def)

theorem empty_catalog_rejected_witness:
  "np_load (demo_libs person_seen clip_512) ''catalog_data.npy'' = Inl FileNotFoundError \<and>
   search_ring (demo_libs person_seen clip_512) (load_catalog (demo_libs person_seen clip_512)) [1]
     = ([], Inr (ErrorJson ''Catalog is empty. Run indexing script.''))"
proof -
  have h: "np_load (demo_libs person_seen clip_512) ''catalog_data.npy'' = Inl FileNotFoundError"
    by (simp add: demo_libs_def)
  show ?thesis
    using empty_catalog_rejected [of "demo_libs person_seen clip_512" "[1]" FileNotFoundError] h
    by blast
qed

section \<open>Stone removal and indexing: claims C8 and C10\<close>

text \<open>
  Claim C8. When the image is found and the segmentation model, run at confidence 0.15 on
  the three-channel grey version of the image, produces a mask, \<^verbatim>\<open>/remove_stone\<close>
  resizes the first mask to the image, turns it into a byte mask, dilates it once with a
  25 by 25 kernel of ones, inpaints the grey image over the dilated mask with the Telea
  method at radius 15, and returns the result encoded as PNG.
\<close>

theorem remove_stone_inpaint:
  assumes "imread env (path_join STATIC_IMG_PATH image_name) = Some img"
    and "masks (yolo_model env (Some (merge3 (bgr2gray env img))) (Some 0.15)) = Some (mask0 # rest)"
  shows "remove_stone env image_name =
           Inr (PngStream (imencode env ''.png''
             (inpaint env (merge3 (bgr2gray env img))
                (dilate env (mask_to_uint8 (cv2_resize env mask0 (width img, height img)))
                   (replicate 25 (replicate 25 1)) 1)
                15 INPAINT_TELEA)))"
  using assms by (simp add: remove_stone_def ones_def)

theorem remove_stone_inpaint_witness:
  "remove_stone (demo_libs stone_found clip_512) ''a.PNG'' = Inr (PngStream [137, 80, 78, 71])"
proof -
  let ?D = "demo_libs stone_found clip_512"
  have h1: "imread ?D (path_join STATIC_IMG_PATH ''a.PNG'') = Some demo_image"
    by (simp add: demo_libs_def path_join_def STATIC_IMG_PATH_def)
  have h2: "masks (yolo_model ?D (Some (merge3 (bgr2gray ?D demo_image))) (Some 0.15))
              = Some ([[0, 1]] # [])"
    by (simp add: demo_libs_def stone_found_def)
  show ?thesis
    using remove_stone_inpaint [OF h1 h2] by (simp add: demo_libs_def)
qed

text \<open>
  Claim C10. When the image folder exists, the indexing procedure ends by saving a list
  in which every record has the name of a listed file that ends, whatever the case of
  its letters, in .png, .jpg or .jpeg, and the vector that \<^verbatim>\<open>get_combined_embedding\<close>
  returned for the decoded file, of 1024 elements when the embedding model yields
  512-element rows. The names of the records are exactly the listed image names that
  decode and embed without an exception, in listing order: the other files are skipped
  and the run goes on.
\<close>

theorem run_indexing_records:
  assumes "path_exists env IMG_FOLDER"
  shows "\<exists>catalog_list. run_indexing env = Some catalog_list \<and>
           (\<forall>r \<in> set catalog_list.
              name r \<in> set (listdir env IMG_FOLDER) \<and>
              (\<exists>stem ext. name r = stem @ ext \<and> lower ext \<in> {''.png'', ''.jpg'', ''.jpeg''}) \<and>
              (\<exists>img. imread env (path_join IMG_FOLDER (name r)) = Some img \<and>
                     index_get_combined_embedding env img = Inr (vector r)) \<and>
              ((\<forall>x. \<exists>row. clip_row (clip_features env x) = Some row \<and> length row = 512)
                 \<longrightarrow> length (vector r) = 1024)) \<and>
           map name catalog_list =
             filter (\<lambda>n. is_image_name n \<and>
                         (\<exists>img v. imread env (path_join IMG_FOLDER n) = Some img \<and>
                                  index_get_combined_embedding env img = Inr v))
                    (listdir env IMG_FOLDER)"
proof -
  let ?images = "filter is_image_name (listdir env IMG_FOLDER)"
  let ?cat = "List.map_filter (index_record env) ?images"
  have run: "run_indexing env = Some ?cat"
    using assms by (simp add: run_indexing_def index_loop_eq)
  have rec: "\<forall>r \<in> set ?cat.
              name r \<in> set (listdir env IMG_FOLDER) \<and>
              (\<exists>stem ext. name r = stem @ ext \<and> lower ext \<in> {''.png'', ''.jpg'', ''.jpeg''}) \<and>
              (\<exists>img. imread env (path_join IMG_FOLDER (name r)) = Some img \<and>
                     index_get_combined_embedding env img = Inr (vector r)) \<and>
              ((\<forall>x. \<exists>row. clip_row (clip_features env x) = Some row \<and> length row = 512)
                 \<longrightarrow> length (vector r) = 1024)"
  proof
    fix r assume "r \<in> set ?cat"
    from map_filter_memD [OF this] obtain n where n: "n \<in> set ?images"
      and some: "index_record env n = Some r" by blast
    from index_record_SomeD [OF some] obtain img where nm: "name r = n"
      and img: "imread env (path_join IMG_FOLDER n) = Some img"
        "index_get_combined_embedding env img = Inr (vector r)" by blast
    have "is_image_name n" using n by simp
    then have ext: "\<exists>stem ext. n = stem @ ext \<and> lower ext \<in> {''.png'', ''.jpg'', ''.jpeg''}"
      by (simp only: is_image_name_iff)
    have dim: "(\<forall>x. \<exists>row. clip_row (clip_features env x) = Some row \<and> length row = 512)
                 \<longrightarrow> length (vector r) = 1024"
      using index_embedding_length [OF _ img(2)] by blast
    show "name r \<in> set (listdir env IMG_FOLDER) \<and>
              (\<exists>stem ext. name r = stem @ ext \<and> lower ext \<in> {''.png'', ''.jpg'', ''.jpeg''}) \<and>
              (\<exists>img. imread env (path_join IMG_FOLDER (name r)) = Some img \<and>
                     index_get_combined_embedding env img = Inr (vector r)) \<and>
              ((\<forall>x. \<exists>row. clip_row (clip_features env x) = Some row \<and> length row = 512)
                 \<longrightarrow> length (vector r) = 1024)"
      using n nm img ext dim by auto
  qed
  have some_iff: "(index_record env n \<noteq> None) =
          (\<exists>img v. imread env (path_join IMG_FOLDER n) = Some img \<and>
                   index_get_combined_embedding env img = Inr v)" for n
    by (auto simp: index_record_def split: option.splits sum.splits)
  have names: "map name ?cat =
             filter (\<lambda>n. is_image_name n \<and>
                         (\<exists>img v. imread env (path_join IMG_FOLDER n) = Some img \<and>
                                  index_get_combined_embedding env img = Inr v))
                    (listdir env IMG_FOLDER)"
  proof -
    have "map name ?cat = filter (\<lambda>n. index_record env n \<noteq> None) ?images"
      by (rule names_of_index_records)
    also have "\<dots> = filter (\<lambda>n. is_image_name n \<and> index_record env n \<noteq> None)
                         (listdir env IMG_FOLDER)"
      by (simp only: filter_filter)
    finally show ?thesis by (simp only: some_iff)
  qed
  from run rec names show ?thesis by blast
qed

theorem run_indexing_records_witness:
  "\<exists>catalog_list. run_indexing (demo_libs no_detection clip_512) = Some catalog_list \<and>
     map name catalog_list = [''a.PNG'', ''b.jpg''] \<and>
     (\<forall>r \<in> set catalog_list. length (vector r) = 1024)"
proof -
  let ?D = "demo_libs no_detection clip_512"
  have h: "path_exists ?D IMG_FOLDER" by (simp add: demo_libs_def)
  have c: "\<forall>x. \<exists>row. clip_row (clip_features ?D x) = Some row \<and> length row = 512"
    by (simp add: demo_libs_def clip_512_def)
  have n: "map name (the (run_indexing ?D)) = [''a.PNG'', ''b.jpg'']" by code_simp
  from run_indexing_records [OF h] obtain cl where cl: "run_indexing ?D = Some cl"
    and rec: "\<forall>r \<in> set cl.
       ((\<forall>x. \<exists>row. clip_row (clip_features ?D x) = Some row \<and> length row = 512)
                 \<longrightarrow> length (vector r) = 1024)" by blast
  from rec c have "\<forall>r \<in> set cl. length (vector r) = 1024" by blast
  with cl n show ?thesis by simp
qed

end
